theory Spec2Isabelle
  imports Main
begin

section \<open>The left navigation's repository section\<close>

text \<open>
  A shallow embedding of \<^verbatim>\<open>nav/LeftNavRepositorySection.tsx\<close>. The file holds two
  function components: \<^verbatim>\<open>LoadedRepositorySection\<close>, with its inner closure
  \<^verbatim>\<open>listContent\<close>, and the exported wrapper \<^verbatim>\<open>LeftNavRepositorySection\<close>.
  A component is a function from its inputs to the element tree it returns; a thrown
  JavaScript exception is the \<open>Inl\<close> side of the result.
\<close>

subsection \<open>Values\<close>

text \<open>
  TypeScript declares \<^verbatim>\<open>allRepos\<close> and \<^verbatim>\<open>visibleRepos\<close> as
  \<^verbatim>\<open>DagsterRepoOption[]\<close>. The types are erased at run time, where a missing value is
  \<^verbatim>\<open>undefined\<close> and an empty one may be \<^verbatim>\<open>null\<close>; the model keeps both, the two
  values from which reading a property throws. Other values that are not arrays (numbers,
  strings, objects) are outside the model.
\<close>

datatype 'r js_array = Undefined | Null | Array "'r list"

datatype error = TypeError

text \<open>
  \<^verbatim>\<open>xs.length\<close>: the number of elements of an array; on \<^verbatim>\<open>undefined\<close> and on
  \<^verbatim>\<open>null\<close> the property read throws a \<^verbatim>\<open>TypeError\<close>.
\<close>

fun js_length :: "'r js_array \<Rightarrow> error + nat" where
  "js_length Undefined = Inl TypeError"
| "js_length Null = Inl TypeError"
| "js_length (Array xs) = Inr (length xs)"

text \<open>The values of the object literals of the file: strings and numbers.\<close>

datatype js_prim = JsString string | JsNumber int

type_synonym js_object = "(string \<times> js_prim) list"

subsection \<open>Elements\<close>

text \<open>
  One constructor for each kind of element the file writes in JSX:
  \<^item> \<open>Text\<close>: literal text between tags;
  \<^item> \<open>Div\<close>, \<open>Span\<close>: the host elements \<^verbatim>\<open>div\<close> and \<^verbatim>\<open>span\<close> with their
    \<^verbatim>\<open>style\<close> object;
  \<^item> \<open>Container\<close>, \<open>ListContainer\<close>, \<open>EmptyState\<close>: the three \<^verbatim>\<open>styled.div\<close>
    components of the file (their style sheets are constant and are left out);
  \<^item> \<open>Box\<close> (with its \<^verbatim>\<open>flex\<close> and \<^verbatim>\<open>padding\<close> objects) and \<open>Body\<close>: layout
    components of the ui-components package;
  \<^item> \<open>SectionedLeftNav\<close>, \<open>RepositoryLocationStateObserver\<close>: imported components
    mounted without props;
  \<^item> \<open>RepoNavItem\<close>: the imported selector, with its props in the order
    \<^verbatim>\<open>allRepos\<close>, \<^verbatim>\<open>selected\<close>, \<^verbatim>\<open>onToggle\<close>.
  The type parameters are \<open>'r\<close> for \<^verbatim>\<open>DagsterRepoOption\<close>, \<open>'a\<close> for
  \<^verbatim>\<open>RepoAddress\<close> and \<open>'e\<close> for the effect of calling
  \<^verbatim>\<open>toggleVisible\<close> (a function returning \<^verbatim>\<open>void\<close>).
\<close>

datatype ('r, 'a, 'e) element =
    Text string
  | Div js_object "('r, 'a, 'e) element list"
  | Span js_object "('r, 'a, 'e) element list"
  | Container "('r, 'a, 'e) element list"
  | ListContainer "('r, 'a, 'e) element list"
  | EmptyState "('r, 'a, 'e) element list"
  | Box js_object js_object "('r, 'a, 'e) element list"
  | Body "('r, 'a, 'e) element list"
  | SectionedLeftNav
  | RepositoryLocationStateObserver
  | RepoNavItem "'r js_array" "'r js_array" "'a list \<Rightarrow> 'e"

subsection \<open>The workspace context\<close>

text \<open>
  \<^verbatim>\<open>React.useContext(WorkspaceContext)\<close> returns the ambient context object, of which
  the wrapper destructures four fields. The context is the argument of the model; the
  record is extensible, so a context may carry any further fields.
\<close>

record ('r, 'a, 'e) WorkspaceContext =
  allRepos :: "'r js_array"
  loading :: bool
  visibleRepos :: "'r js_array"
  toggleVisible :: "'a list \<Rightarrow> 'e"

subsection \<open>The components\<close>

text \<open>
  \<^verbatim>\<open>listContent\<close> (lines 21 to 49) closes over the props \<^verbatim>\<open>allRepos\<close> and
  \<^verbatim>\<open>visibleRepos\<close>. \<^verbatim>\<open>if (visibleRepos.length)\<close> tests the number for being
  non-zero; \<^verbatim>\<open>allRepos.length\<close> is read only when that test fails.
\<close>

definition listContent :: "'r js_array \<Rightarrow> 'r js_array \<Rightarrow> error + ('r, 'a, 'e) element" where
  "listContent all_repos visible_repos =
     (case js_length visible_repos of
        Inl err \<Rightarrow> Inl err
      | Inr n \<Rightarrow>
          if n \<noteq> 0 then
            Inr (Div [(''overflow'', JsString ''hidden'')] [SectionedLeftNav])
          else
            (case js_length all_repos of
               Inl err \<Rightarrow> Inl err
             | Inr m \<Rightarrow>
                 if m > 0 then
                   Inr (EmptyState
                     [Box [(''direction'', JsString ''column''), (''gap'', JsNumber 8)]
                          [(''top'', JsNumber 12)]
                        [Span [(''fontSize'', JsString ''16px''), (''fontWeight'', JsNumber 500)]
                           [Text ''No definitions''],
                         Body [Text ''Select a code location to see a list of jobs'']]])
                 else
                   Inr (EmptyState
                     [Box [(''direction'', JsString ''column''), (''gap'', JsNumber 8)]
                          [(''top'', JsNumber 12)]
                        [Span [(''fontSize'', JsString ''16px''), (''fontWeight'', JsNumber 500)]
                           [Text ''No definitions''],
                         Body [Text
                           ''When you add a code location, your definitions will appear here'']]])))"

text \<open>
  \<^verbatim>\<open>LoadedRepositorySection\<close> (lines 12 to 58) takes the three props it destructures.
  Its children are evaluated in order, so \<^verbatim>\<open>listContent()\<close> runs, and may throw,
  before the element is built.
\<close>

definition LoadedRepositorySection ::
    "'r js_array \<Rightarrow> 'r js_array \<Rightarrow> ('a list \<Rightarrow> 'e) \<Rightarrow> error + ('r, 'a, 'e) element" where
  "LoadedRepositorySection all_repos visible_repos toggle_visible =
     (case listContent all_repos visible_repos of
        Inl err \<Rightarrow> Inl err
      | Inr content \<Rightarrow>
          Inr (Container
            [ListContainer [content],
             RepositoryLocationStateObserver,
             RepoNavItem all_repos visible_repos toggle_visible]))"

text \<open>
  \<^verbatim>\<open>LeftNavRepositorySection\<close> (lines 82 to 96). \<^verbatim>\<open>React.memo\<close> only lets React
  skip a render; what a render returns is the function's result. The element
  \<^verbatim>\<open><LoadedRepositorySection ... />\<close> it returns is rendered by calling that
  component with the three props given.
\<close>

definition LeftNavRepositorySection ::
    "('r, 'a, 'e, 'z) WorkspaceContext_scheme \<Rightarrow> error + ('r, 'a, 'e) element" where
  "LeftNavRepositorySection ctx =
     (if loading ctx then Inr (Div [(''flex'', JsNumber 1)] [])
      else LoadedRepositorySection (allRepos ctx) (visibleRepos ctx) (toggleVisible ctx))"

text \<open>
  The props the wrapper writes on \<^verbatim>\<open><LoadedRepositorySection ... />\<close> (lines 90 to
  94), by attribute name and in the order written. A prop holds a value of the context: an
  array, a boolean or a callback.
\<close>

datatype ('r, 'a, 'e) prop_value =
    ArrayProp "'r js_array"
  | BooleanProp bool
  | FunctionProp "'a list \<Rightarrow> 'e"

definition LoadedRepositorySection_props ::
    "('r, 'a, 'e, 'z) WorkspaceContext_scheme \<Rightarrow> (string \<times> ('r, 'a, 'e) prop_value) list" where
  "LoadedRepositorySection_props ctx =
     [(''allRepos'', ArrayProp (allRepos ctx)),
      (''visibleRepos'', ArrayProp (visibleRepos ctx)),
      (''toggleVisible'', FunctionProp (toggleVisible ctx))]"

subsection \<open>Reading a rendered tree\<close>

text \<open>The literal texts of a tree, in document order.\<close>

fun texts :: "('r, 'a, 'e) element \<Rightarrow> string list" where
  "texts (Text s) = [s]"
| "texts (Div st cs) = concat (map texts cs)"
| "texts (Span st cs) = concat (map texts cs)"
| "texts (Container cs) = concat (map texts cs)"
| "texts (ListContainer cs) = concat (map texts cs)"
| "texts (EmptyState cs) = concat (map texts cs)"
| "texts (Box fl pd cs) = concat (map texts cs)"
| "texts (Body cs) = concat (map texts cs)"
| "texts SectionedLeftNav = []"
| "texts RepositoryLocationStateObserver = []"
| "texts (RepoNavItem ar sel tg) = []"

text \<open>
  The child collaborators of the section: the sectioned list, the location-state
  observer and the selector.
\<close>

datatype collaborator = SectionedList | LocationStateObserver | Selector

fun collaborators :: "('r, 'a, 'e) element \<Rightarrow> collaborator list" where
  "collaborators (Text s) = []"
| "collaborators (Div st cs) = concat (map collaborators cs)"
| "collaborators (Span st cs) = concat (map collaborators cs)"
| "collaborators (Container cs) = concat (map collaborators cs)"
| "collaborators (ListContainer cs) = concat (map collaborators cs)"
| "collaborators (EmptyState cs) = concat (map collaborators cs)"
| "collaborators (Box fl pd cs) = concat (map collaborators cs)"
| "collaborators (Body cs) = concat (map collaborators cs)"
| "collaborators SectionedLeftNav = [SectionedList]"
| "collaborators RepositoryLocationStateObserver = [LocationStateObserver]"
| "collaborators (RepoNavItem ar sel tg) = [Selector]"

text \<open>
  The handlers given to the selectors of a tree as \<^verbatim>\<open>onToggle\<close>, in document order.
\<close>

fun onToggle_handlers :: "('r, 'a, 'e) element \<Rightarrow> ('a list \<Rightarrow> 'e) list" where
  "onToggle_handlers (Text s) = []"
| "onToggle_handlers (Div st cs) = concat (map onToggle_handlers cs)"
| "onToggle_handlers (Span st cs) = concat (map onToggle_handlers cs)"
| "onToggle_handlers (Container cs) = concat (map onToggle_handlers cs)"
| "onToggle_handlers (ListContainer cs) = concat (map onToggle_handlers cs)"
| "onToggle_handlers (EmptyState cs) = concat (map onToggle_handlers cs)"
| "onToggle_handlers (Box fl pd cs) = concat (map onToggle_handlers cs)"
| "onToggle_handlers (Body cs) = concat (map onToggle_handlers cs)"
| "onToggle_handlers SectionedLeftNav = []"
| "onToggle_handlers RepositoryLocationStateObserver = []"
| "onToggle_handlers (RepoNavItem ar sel tg) = [tg]"

subsection \<open>The views of the source, by name\<close>

text \<open>
  Shorthand for the JSX literals of the file, used to state the properties:
  the placeholder of line 86, the list of lines 24 to 26, the two messages of lines 32
  to 37 and 42 to 47 (they differ in the text of \<^verbatim>\<open>Body\<close> only), and the tree of
  lines 52 to 56 around a given list content.
\<close>

abbreviation placeholder :: "('r, 'a, 'e) element" where
  "placeholder \<equiv> Div [(''flex'', JsNumber 1)] []"

abbreviation populated_list :: "('r, 'a, 'e) element" where
  "populated_list \<equiv> Div [(''overflow'', JsString ''hidden'')] [SectionedLeftNav]"

abbreviation no_definitions :: "string \<Rightarrow> ('r, 'a, 'e) element" where
  "no_definitions hint \<equiv>
     EmptyState
       [Box [(''direction'', JsString ''column''), (''gap'', JsNumber 8)] [(''top'', JsNumber 12)]
          [Span [(''fontSize'', JsString ''16px''), (''fontWeight'', JsNumber 500)]
             [Text ''No definitions''],
           Body [Text hint]]]"

abbreviation empty_selection :: "('r, 'a, 'e) element" where
  "empty_selection \<equiv> no_definitions ''Select a code location to see a list of jobs''"

abbreviation empty_workspace :: "('r, 'a, 'e) element" where
  "empty_workspace \<equiv>
     no_definitions ''When you add a code location, your definitions will appear here''"

abbreviation loaded_section ::
    "('r, 'a, 'e) element \<Rightarrow> 'r js_array \<Rightarrow> 'r js_array \<Rightarrow> ('a list \<Rightarrow> 'e)
      \<Rightarrow> ('r, 'a, 'e) element" where
  "loaded_section content ar sel tg \<equiv>
     Container [ListContainer [content], RepositoryLocationStateObserver, RepoNavItem ar sel tg]"

text \<open>
  The four render states, and when a render of the wrapper produces one: its result is
  that state's view.
\<close>

datatype render_state = LoadingPlaceholder | Populated | EmptySelection | EmptyWorkspace

definition produces ::
    "('r, 'a, 'e, 'z) WorkspaceContext_scheme \<Rightarrow> render_state \<Rightarrow> bool" where
  "produces ctx s =
     (case s of
        LoadingPlaceholder \<Rightarrow> LeftNavRepositorySection ctx = Inr placeholder
      | Populated \<Rightarrow>
          LeftNavRepositorySection ctx =
            Inr (loaded_section populated_list
                  (allRepos ctx) (visibleRepos ctx) (toggleVisible ctx))
      | EmptySelection \<Rightarrow>
          LeftNavRepositorySection ctx =
            Inr (loaded_section empty_selection
                  (allRepos ctx) (visibleRepos ctx) (toggleVisible ctx))
      | EmptyWorkspace \<Rightarrow>
          LeftNavRepositorySection ctx =
            Inr (loaded_section empty_workspace
                  (allRepos ctx) (visibleRepos ctx) (toggleVisible ctx)))"

text \<open>
  Concrete contexts for the examples: repositories and addresses are named by strings,
  and \<^verbatim>\<open>toggleVisible\<close> answers with the addresses it was called with.
\<close>

definition example_context ::
    "string js_array \<Rightarrow> bool \<Rightarrow> string js_array
      \<Rightarrow> (string, string, string list) WorkspaceContext" where
  "example_context ar ld vr =
     \<lparr>allRepos = ar, loading = ld, visibleRepos = vr, toggleVisible = (\<lambda>addrs. addrs)\<rparr>"

section \<open>Properties\<close>

subsection \<open>The list content, branch by branch\<close>

lemma listContent_populated:
  "vs \<noteq> [] \<Longrightarrow> listContent ar (Array vs) = Inr populated_list"
  by (simp add: listContent_def)

lemma listContent_empty_selection:
  "as \<noteq> [] \<Longrightarrow> listContent (Array as) (Array []) = Inr empty_selection"
  by (simp add: listContent_def)

lemma listContent_empty_workspace:
  "listContent (Array []) (Array []) = Inr empty_workspace"
  by (simp add: listContent_def)

lemma listContent_undefined_visible:
  "listContent ar Undefined = Inl TypeError"
  by (simp add: listContent_def)

lemma listContent_undefined_all:
  "listContent Undefined (Array []) = Inl TypeError"
  by (simp add: listContent_def)

lemma listContent_null_visible:
  "listContent ar Null = Inl TypeError"
  by (simp add: listContent_def)

lemma listContent_null_all:
  "listContent Null (Array []) = Inl TypeError"
  by (simp add: listContent_def)

lemma listContent_arrays:
  "listContent (Array as) (Array vs) =
     Inr (if vs \<noteq> [] then populated_list
          else if as \<noteq> [] then empty_selection else empty_workspace)"
  by (simp add: listContent_def)

lemma not_loading_delegates:
  "\<not> loading ctx \<Longrightarrow>
     LeftNavRepositorySection ctx =
       LoadedRepositorySection (allRepos ctx) (visibleRepos ctx) (toggleVisible ctx)"
  by (simp add: LeftNavRepositorySection_def)

lemma loaded_section_of_content:
  "listContent ar vr = Inr content \<Longrightarrow>
     LoadedRepositorySection ar vr tg = Inr (loaded_section content ar vr tg)"
  by (simp add: LoadedRepositorySection_def)

lemma loaded_section_raises:
  fixes tg :: "'a list \<Rightarrow> 'e"
  assumes "(listContent ar vr :: error + ('r, 'a, 'e) element) = Inl err"
  shows "LoadedRepositorySection ar vr tg = Inl err"
  using assms by (simp add: LoadedRepositorySection_def)

subsection \<open>The wrapper, case by case\<close>

lemma typed_render:
  fixes ctx :: "('r, 'a, 'e, 'z) WorkspaceContext_scheme"
  assumes "\<not> loading ctx" and "allRepos ctx = Array as" and "visibleRepos ctx = Array vs"
  shows "LeftNavRepositorySection ctx =
           Inr (loaded_section
                 (if vs \<noteq> [] then populated_list
                  else if as \<noteq> [] then empty_selection else empty_workspace)
                 (Array as) (Array vs) (toggleVisible ctx))"
proof -
  have "LeftNavRepositorySection ctx =
      LoadedRepositorySection (Array as) (Array vs) (toggleVisible ctx)"
    using not_loading_delegates [OF assms(1)] assms(2,3) by simp
  also have "\<dots> = Inr (loaded_section
                 (if vs \<noteq> [] then populated_list
                  else if as \<noteq> [] then empty_selection else empty_workspace)
                 (Array as) (Array vs) (toggleVisible ctx))"
    by (rule loaded_section_of_content [OF listContent_arrays])
  finally show ?thesis .
qed

lemma js_array_cases_render:
  fixes ctx :: "('r, 'a, 'e, 'z) WorkspaceContext_scheme"
  shows "LeftNavRepositorySection ctx =
     (if loading ctx then Inr placeholder
      else case visibleRepos ctx of
             Undefined \<Rightarrow> Inl TypeError
           | Null \<Rightarrow> Inl TypeError
           | Array vs \<Rightarrow>
               if vs \<noteq> [] then
                 Inr (loaded_section populated_list
                       (allRepos ctx) (visibleRepos ctx) (toggleVisible ctx))
               else case allRepos ctx of
                      Undefined \<Rightarrow> Inl TypeError
                    | Null \<Rightarrow> Inl TypeError
                    | Array as \<Rightarrow>
                        Inr (loaded_section
                              (if as \<noteq> [] then empty_selection else empty_workspace)
                              (allRepos ctx) (visibleRepos ctx) (toggleVisible ctx)))"
  by (simp add: LeftNavRepositorySection_def LoadedRepositorySection_def listContent_def
      split: js_array.splits)

lemma produces_iff:
  fixes ctx :: "('r, 'a, 'e, 'z) WorkspaceContext_scheme"
  assumes "allRepos ctx = Array as" and "visibleRepos ctx = Array vs"
  shows "produces ctx s \<longleftrightarrow>
           s = (if loading ctx then LoadingPlaceholder
                else if vs \<noteq> [] then Populated
                else if as \<noteq> [] then EmptySelection else EmptyWorkspace)"
  using assms
  by (cases s) (simp_all add: produces_def js_array_cases_render)

lemma produces_at_most_one:
  fixes ctx :: "('r, 'a, 'e, 'z) WorkspaceContext_scheme"
  assumes "produces ctx s" and "produces ctx t"
  shows "s = t"
  using assms by (cases s; cases t) (simp_all add: produces_def)

lemma raising_produces_nothing:
  fixes ctx :: "('r, 'a, 'e, 'z) WorkspaceContext_scheme"
  assumes "LeftNavRepositorySection ctx = Inl err"
  shows "\<not> produces ctx s"
  using assms by (cases s) (simp_all add: produces_def)

subsection \<open>The claims\<close>

text \<open>
  C1. While the context is loading, the wrapper renders the empty placeholder
  \<^verbatim>\<open><div style={{flex: 1}} />\<close> and nothing else: the placeholder has no child, no
  text and no collaborator (no list, no observer, no selector), and the result is the
  same whatever \<open>allRepos\<close> and \<open>visibleRepos\<close> are, undefined included, so neither is
  read.
\<close>

theorem loading_renders_placeholder:
  assumes "loading ctx"
  shows "LeftNavRepositorySection ctx = Inr (Div [(''flex'', JsNumber 1)] [])
       \<and> (\<exists>out. LeftNavRepositorySection ctx = Inr out
            \<and> texts out = [] \<and> collaborators out = [])
       \<and> LeftNavRepositorySection (ctx\<lparr>allRepos := ar, visibleRepos := vr\<rparr>)
            = LeftNavRepositorySection ctx"
  using assms by (simp add: LeftNavRepositorySection_def)

theorem loading_renders_placeholder_witness:
  "loading (example_context (Array [''A'']) True (Array [''A'']))
   \<and> LeftNavRepositorySection (example_context (Array [''A'']) True (Array [''A'']))
       = Inr (Div [(''flex'', JsNumber 1)] [])
   \<and> LeftNavRepositorySection
       ((example_context (Array [''A'']) True (Array [''A'']))
          \<lparr>allRepos := Undefined, visibleRepos := Undefined\<rparr>)
       = LeftNavRepositorySection (example_context (Array [''A'']) True (Array [''A'']))"
proof -
  have h: "loading (example_context (Array [''A'']) True (Array [''A'']))"
    by (simp add: example_context_def)
  from loading_renders_placeholder [OF h, of Undefined Undefined] h
  show ?thesis by simp
qed

text \<open>
  C2. When the context is not loading and \<open>visibleRepos\<close> is a non-empty array, the list
  content is the populated view, \<^verbatim>\<open>SectionedLeftNav\<close> inside a
  \<^verbatim>\<open>div\<close> whose style is \<^verbatim>\<open>overflow: hidden\<close>, and the wrapper renders the loaded
  section around it. Nothing is assumed of \<open>allRepos\<close>.
\<close>

theorem visible_repos_render_populated_list:
  fixes ctx :: "('r, 'a, 'e, 'z) WorkspaceContext_scheme"
  assumes "\<not> loading ctx" and "visibleRepos ctx = Array vs" and "vs \<noteq> []"
  shows "(listContent (allRepos ctx) (visibleRepos ctx) :: error + ('r, 'a, 'e) element) =
           Inr (Div [(''overflow'', JsString ''hidden'')] [SectionedLeftNav])
       \<and> LeftNavRepositorySection ctx =
           Inr (loaded_section (Div [(''overflow'', JsString ''hidden'')] [SectionedLeftNav])
                 (allRepos ctx) (visibleRepos ctx) (toggleVisible ctx))"
  using assms
  by (simp add: not_loading_delegates listContent_populated loaded_section_of_content)

theorem visible_repos_render_populated_list_witness:
  "\<not> loading (example_context Undefined False (Array [''A'']))
   \<and> visibleRepos (example_context Undefined False (Array [''A''])) = Array [''A'']
   \<and> [''A''] \<noteq> []
   \<and> LeftNavRepositorySection (example_context Undefined False (Array [''A''])) =
       Inr (loaded_section populated_list Undefined (Array [''A'']) (\<lambda>addrs. addrs))"
proof -
  have h1: "\<not> loading (example_context Undefined False (Array [''A'']))"
    and h2: "visibleRepos (example_context Undefined False (Array [''A''])) = Array [''A'']"
    and h3: "[''A''] \<noteq> []"
    by (simp_all add: example_context_def)
  from visible_repos_render_populated_list [OF h1 h2 h3] h1 h2 h3
  show ?thesis by (simp add: example_context_def)
qed

text \<open>
  C3. When the context is not loading, \<open>visibleRepos\<close> is the empty array and \<open>allRepos\<close>
  is a non-empty array, the list content is the empty-selection message, whose texts are
  exactly "No definitions" and "Select a code location to see a list of jobs", and the
  wrapper renders the loaded section around it.
\<close>

theorem no_visible_repos_render_empty_selection:
  fixes ctx :: "('r, 'a, 'e, 'z) WorkspaceContext_scheme"
  assumes "\<not> loading ctx" and "visibleRepos ctx = Array []"
    and "allRepos ctx = Array as" and "as \<noteq> []"
  shows "(listContent (allRepos ctx) (visibleRepos ctx) :: error + ('r, 'a, 'e) element)
           = Inr empty_selection
       \<and> texts empty_selection =
           [''No definitions'', ''Select a code location to see a list of jobs'']
       \<and> LeftNavRepositorySection ctx =
           Inr (loaded_section empty_selection
                 (allRepos ctx) (visibleRepos ctx) (toggleVisible ctx))
       \<and> (\<exists>out. LeftNavRepositorySection ctx = Inr out \<and> texts out =
           [''No definitions'', ''Select a code location to see a list of jobs''])"
  using assms
  by (simp add: not_loading_delegates listContent_empty_selection loaded_section_of_content)

theorem no_visible_repos_render_empty_selection_witness:
  "\<not> loading (example_context (Array [''A'', ''B'']) False (Array []))
   \<and> visibleRepos (example_context (Array [''A'', ''B'']) False (Array [])) = Array []
   \<and> allRepos (example_context (Array [''A'', ''B'']) False (Array [])) = Array [''A'', ''B'']
   \<and> [''A'', ''B''] \<noteq> []
   \<and> LeftNavRepositorySection (example_context (Array [''A'', ''B'']) False (Array [])) =
       Inr (loaded_section empty_selection (Array [''A'', ''B'']) (Array []) (\<lambda>addrs. addrs))"
proof -
  have h1: "\<not> loading (example_context (Array [''A'', ''B'']) False (Array []))"
    and h2: "visibleRepos (example_context (Array [''A'', ''B'']) False (Array [])) = Array []"
    and h3: "allRepos (example_context (Array [''A'', ''B'']) False (Array []))
               = Array [''A'', ''B'']"
    and h4: "[''A'', ''B''] \<noteq> []"
    by (simp_all add: example_context_def)
  from no_visible_repos_render_empty_selection [OF h1 h2 h3 h4] h1 h2 h3 h4
  show ?thesis by (simp add: example_context_def)
qed

text \<open>
  C4. When the context is not loading and both \<open>visibleRepos\<close> and \<open>allRepos\<close> are the
  empty array, the list content is the empty-workspace message, whose texts are exactly
  "No definitions" and "When you add a code location, your definitions will appear
  here", and the wrapper renders the loaded section around it.
\<close>

theorem no_repos_render_empty_workspace:
  fixes ctx :: "('r, 'a, 'e, 'z) WorkspaceContext_scheme"
  assumes "\<not> loading ctx" and "visibleRepos ctx = Array []" and "allRepos ctx = Array []"
  shows "(listContent (allRepos ctx) (visibleRepos ctx) :: error + ('r, 'a, 'e) element)
           = Inr empty_workspace
       \<and> texts empty_workspace =
           [''No definitions'',
            ''When you add a code location, your definitions will appear here'']
       \<and> LeftNavRepositorySection ctx =
           Inr (loaded_section empty_workspace
                 (allRepos ctx) (visibleRepos ctx) (toggleVisible ctx))
       \<and> (\<exists>out. LeftNavRepositorySection ctx = Inr out \<and> texts out =
           [''No definitions'',
            ''When you add a code location, your definitions will appear here''])"
  using assms
  by (simp add: not_loading_delegates listContent_empty_workspace loaded_section_of_content)

theorem no_repos_render_empty_workspace_witness:
  "\<not> loading (example_context (Array []) False (Array []))
   \<and> visibleRepos (example_context (Array []) False (Array [])) = Array []
   \<and> allRepos (example_context (Array []) False (Array [])) = Array []
   \<and> LeftNavRepositorySection (example_context (Array []) False (Array [])) =
       Inr (loaded_section empty_workspace (Array []) (Array []) (\<lambda>addrs. addrs))"
proof -
  have h1: "\<not> loading (example_context (Array []) False (Array []))"
    and h2: "visibleRepos (example_context (Array []) False (Array [])) = Array []"
    and h3: "allRepos (example_context (Array []) False (Array [])) = Array []"
    by (simp_all add: example_context_def)
  from no_repos_render_empty_workspace [OF h1 h2 h3] h1 h2 h3
  show ?thesis by (simp add: example_context_def)
qed

text \<open>
  C5, as the code has it. When the context is not loading and holds arrays, the wrapper
  renders the loaded section with the context's \<open>allRepos\<close>, \<open>visibleRepos\<close> and
  \<open>toggleVisible\<close> as they are. These three are the props it passes; \<open>loading\<close>, the
  fourth value it reads, is its gate and is passed to nothing. Whichever of the three
  list contents applies (populated, empty-selection, empty-workspace), the section holds,
  after the list container, the location-state observer and the selector, and the
  selector's props are the context's \<open>allRepos\<close> (\<^verbatim>\<open>allRepos\<close>), \<open>visibleRepos\<close>
  (\<^verbatim>\<open>selected\<close>) and \<open>toggleVisible\<close> (\<^verbatim>\<open>onToggle\<close>).
\<close>

theorem loaded_section_mounts_observer_and_selector:
  fixes ctx :: "('r, 'a, 'e, 'z) WorkspaceContext_scheme"
  assumes "\<not> loading ctx" and "allRepos ctx = Array as" and "visibleRepos ctx = Array vs"
  shows "LeftNavRepositorySection ctx =
           LoadedRepositorySection (allRepos ctx) (visibleRepos ctx) (toggleVisible ctx)
       \<and> map fst (LoadedRepositorySection_props ctx) =
           [''allRepos'', ''visibleRepos'', ''toggleVisible'']
       \<and> map_of (LoadedRepositorySection_props ctx) ''allRepos''
           = Some (ArrayProp (allRepos ctx))
       \<and> map_of (LoadedRepositorySection_props ctx) ''visibleRepos''
           = Some (ArrayProp (visibleRepos ctx))
       \<and> map_of (LoadedRepositorySection_props ctx) ''toggleVisible''
           = Some (FunctionProp (toggleVisible ctx))
       \<and> map_of (LoadedRepositorySection_props ctx) ''loading'' = None
       \<and> (\<exists>content.
             (content = populated_list \<or> content = empty_selection \<or> content = empty_workspace)
           \<and> (listContent (allRepos ctx) (visibleRepos ctx) :: error + ('r, 'a, 'e) element)
               = Inr content
           \<and> LeftNavRepositorySection ctx =
               Inr (Container
                     [ListContainer [content],
                      RepositoryLocationStateObserver,
                      RepoNavItem (allRepos ctx) (visibleRepos ctx) (toggleVisible ctx)])
           \<and> collaborators (Container
                     [ListContainer [content],
                      RepositoryLocationStateObserver,
                      RepoNavItem (allRepos ctx) (visibleRepos ctx) (toggleVisible ctx)])
               = collaborators content @ [LocationStateObserver, Selector])"
proof -
  let ?content = "(if vs \<noteq> [] then populated_list
                   else if as \<noteq> [] then empty_selection else empty_workspace)
                  :: ('r, 'a, 'e) element"
  have "?content = populated_list \<or> ?content = empty_selection \<or> ?content = empty_workspace"
    by simp
  moreover have "(listContent (allRepos ctx) (visibleRepos ctx) :: error + ('r, 'a, 'e) element)
      = Inr ?content"
    using assms by (simp only: listContent_arrays)
  moreover have "LeftNavRepositorySection ctx =
      Inr (loaded_section ?content (allRepos ctx) (visibleRepos ctx) (toggleVisible ctx))"
    using typed_render [OF assms] assms by simp
  moreover have "collaborators
        (loaded_section ?content (allRepos ctx) (visibleRepos ctx) (toggleVisible ctx))
      = collaborators ?content @ [LocationStateObserver, Selector]"
    by simp
  ultimately have tree: "\<exists>content.
             (content = populated_list \<or> content = empty_selection \<or> content = empty_workspace)
           \<and> (listContent (allRepos ctx) (visibleRepos ctx) :: error + ('r, 'a, 'e) element)
               = Inr content
           \<and> LeftNavRepositorySection ctx =
               Inr (loaded_section content (allRepos ctx) (visibleRepos ctx) (toggleVisible ctx))
           \<and> collaborators
                (loaded_section content (allRepos ctx) (visibleRepos ctx) (toggleVisible ctx))
               = collaborators content @ [LocationStateObserver, Selector]"
    by blast
  have props: "map fst (LoadedRepositorySection_props ctx) =
           [''allRepos'', ''visibleRepos'', ''toggleVisible'']"
    "map_of (LoadedRepositorySection_props ctx) ''allRepos'' = Some (ArrayProp (allRepos ctx))"
    "map_of (LoadedRepositorySection_props ctx) ''visibleRepos''
       = Some (ArrayProp (visibleRepos ctx))"
    "map_of (LoadedRepositorySection_props ctx) ''toggleVisible''
       = Some (FunctionProp (toggleVisible ctx))"
    "map_of (LoadedRepositorySection_props ctx) ''loading'' = None"
    by (simp_all add: LoadedRepositorySection_props_def)
  from not_loading_delegates [OF assms(1)] props tree show ?thesis
    by (intro conjI)
qed

theorem loaded_section_mounts_observer_and_selector_witness:
  "\<not> loading (example_context (Array [''A'', ''B'']) False (Array [''B'']))
   \<and> allRepos (example_context (Array [''A'', ''B'']) False (Array [''B''])) = Array [''A'', ''B'']
   \<and> visibleRepos (example_context (Array [''A'', ''B'']) False (Array [''B''])) = Array [''B'']
   \<and> LeftNavRepositorySection (example_context (Array [''A'', ''B'']) False (Array [''B''])) =
       Inr (Container
             [ListContainer [populated_list],
              RepositoryLocationStateObserver,
              RepoNavItem (Array [''A'', ''B'']) (Array [''B'']) (\<lambda>addrs. addrs)])
   \<and> map fst
        (LoadedRepositorySection_props
          (example_context (Array [''A'', ''B'']) False (Array [''B''])))
       = [''allRepos'', ''visibleRepos'', ''toggleVisible'']"
proof -
  have h1: "\<not> loading (example_context (Array [''A'', ''B'']) False (Array [''B'']))"
    and h2: "allRepos (example_context (Array [''A'', ''B'']) False (Array [''B'']))
               = Array [''A'', ''B'']"
    and h3: "visibleRepos (example_context (Array [''A'', ''B'']) False (Array [''B'']))
               = Array [''B'']"
    by (simp_all add: example_context_def)
  from loaded_section_mounts_observer_and_selector [OF h1 h2 h3] h1 h2 h3
  show ?thesis by (auto simp add: example_context_def listContent_def)
qed

text \<open>
  The counterexample to C5 as the specification words it, with four values passed on: in
  the context with \<open>allRepos\<close> \<^verbatim>\<open>[A, B]\<close>, \<open>visibleRepos\<close> \<^verbatim>\<open>[B]\<close> and \<open>loading\<close>
  false, the props of the loaded section are three, and \<open>loading\<close> is not one of them.
\<close>

theorem loading_is_not_passed_to_loaded_section:
  "map fst
     (LoadedRepositorySection_props
       (example_context (Array [''A'', ''B'']) False (Array [''B''])))
     = [''allRepos'', ''visibleRepos'', ''toggleVisible'']
   \<and> map_of
       (LoadedRepositorySection_props
         (example_context (Array [''A'', ''B'']) False (Array [''B''])))
       ''loading''
     = None
   \<and> map_of
       (LoadedRepositorySection_props
         (example_context (Array [''A'', ''B'']) False (Array [''B''])))
       ''loading''
     \<noteq> Some (BooleanProp
              (loading (example_context (Array [''A'', ''B'']) False (Array [''B'']))))"
  by (simp add: LoadedRepositorySection_props_def)

text \<open>
  C6. In a loaded render the tree holds one selector, and its \<^verbatim>\<open>onToggle\<close> handler is
  the context's \<open>toggleVisible\<close> itself: called with any sequence of addresses it does
  what \<open>toggleVisible\<close> does with that same sequence.
\<close>

theorem selector_toggle_forwards_to_toggleVisible:
  fixes ctx :: "('r, 'a, 'e, 'z) WorkspaceContext_scheme"
  assumes "\<not> loading ctx" and "allRepos ctx = Array as" and "visibleRepos ctx = Array vs"
  shows "\<exists>out. LeftNavRepositorySection ctx = Inr out
           \<and> onToggle_handlers out = [toggleVisible ctx]
           \<and> map (\<lambda>onToggle. onToggle addrs) (onToggle_handlers out) = [toggleVisible ctx addrs]"
  using typed_render [OF assms] by simp

theorem selector_toggle_forwards_to_toggleVisible_witness:
  "\<not> loading (example_context (Array [''A'', ''B'']) False (Array [''A'']))
   \<and> allRepos (example_context (Array [''A'', ''B'']) False (Array [''A''])) = Array [''A'', ''B'']
   \<and> visibleRepos (example_context (Array [''A'', ''B'']) False (Array [''A''])) = Array [''A'']
   \<and> (\<exists>out. LeftNavRepositorySection (example_context (Array [''A'', ''B'']) False (Array [''A'']))
               = Inr out
           \<and> map (\<lambda>onToggle. onToggle [''B'', ''A'', ''B'']) (onToggle_handlers out)
               = [[''B'', ''A'', ''B'']])"
proof -
  have h1: "\<not> loading (example_context (Array [''A'', ''B'']) False (Array [''A'']))"
    and h2: "allRepos (example_context (Array [''A'', ''B'']) False (Array [''A'']))
               = Array [''A'', ''B'']"
    and h3: "visibleRepos (example_context (Array [''A'', ''B'']) False (Array [''A'']))
               = Array [''A'']"
    by (simp_all add: example_context_def)
  from selector_toggle_forwards_to_toggleVisible [OF h1 h2 h3, of "[''B'', ''A'', ''B'']"] h1 h2 h3
  show ?thesis by (auto simp add: example_context_def)
qed

text \<open>
  C7, as the code has it, for values that are arrays, undefined or null. A context whose
  \<open>allRepos\<close> and \<open>visibleRepos\<close> are arrays always renders, and a loading context
  renders the placeholder whatever the two values are. An undefined or null value (a
  missing context field destructures to \<^verbatim>\<open>undefined\<close>) is not read as an empty
  sequence: a render raises, with a \<^verbatim>\<open>TypeError\<close> from reading \<^verbatim>\<open>.length\<close>, exactly
  when the context is not loading and either \<open>visibleRepos\<close> is undefined or null, or
  \<open>visibleRepos\<close> is empty and \<open>allRepos\<close> is undefined or null.
\<close>

theorem render_raises_only_on_undefined_or_null:
  fixes ctx :: "('r, 'a, 'e, 'z) WorkspaceContext_scheme"
  shows "(allRepos ctx \<noteq> Undefined \<and> allRepos ctx \<noteq> Null
          \<and> visibleRepos ctx \<noteq> Undefined \<and> visibleRepos ctx \<noteq> Null
            \<longrightarrow> (\<exists>out. LeftNavRepositorySection ctx = Inr out))
       \<and> (loading ctx \<longrightarrow> LeftNavRepositorySection ctx = Inr (Div [(''flex'', JsNumber 1)] []))
       \<and> (LeftNavRepositorySection ctx = Inl TypeError
            \<longleftrightarrow> \<not> loading ctx
                \<and> (visibleRepos ctx = Undefined \<or> visibleRepos ctx = Null
                    \<or> visibleRepos ctx = Array []
                        \<and> (allRepos ctx = Undefined \<or> allRepos ctx = Null)))"
  by (simp add: js_array_cases_render split: js_array.splits)

theorem render_raises_only_on_undefined_or_null_witness:
  "allRepos (example_context (Array [''A'']) False (Array [])) \<noteq> Undefined
   \<and> allRepos (example_context (Array [''A'']) False (Array [])) \<noteq> Null
   \<and> visibleRepos (example_context (Array [''A'']) False (Array [])) \<noteq> Undefined
   \<and> visibleRepos (example_context (Array [''A'']) False (Array [])) \<noteq> Null
   \<and> (\<exists>out. LeftNavRepositorySection (example_context (Array [''A'']) False (Array []))
               = Inr out)
   \<and> loading (example_context Null True Undefined)
   \<and> LeftNavRepositorySection (example_context Null True Undefined)
       = Inr (Div [(''flex'', JsNumber 1)] [])
   \<and> LeftNavRepositorySection (example_context Null False (Array [])) = Inl TypeError"
proof -
  have h: "allRepos (example_context (Array [''A'']) False (Array [])) \<noteq> Undefined
         \<and> allRepos (example_context (Array [''A'']) False (Array [])) \<noteq> Null
         \<and> visibleRepos (example_context (Array [''A'']) False (Array [])) \<noteq> Undefined
         \<and> visibleRepos (example_context (Array [''A'']) False (Array [])) \<noteq> Null"
    and l: "loading (example_context Null True Undefined)"
    and n: "\<not> loading (example_context Null False (Array []))
         \<and> visibleRepos (example_context Null False (Array [])) = Array []
         \<and> allRepos (example_context Null False (Array [])) = Null"
    by (simp_all add: example_context_def)
  from render_raises_only_on_undefined_or_null
         [of "example_context (Array [''A'']) False (Array [])"]
       render_raises_only_on_undefined_or_null [of "example_context Null True Undefined"]
       render_raises_only_on_undefined_or_null [of "example_context Null False (Array [])"]
       h l n
  show ?thesis by blast
qed

text \<open>
  The counterexample to C7 as the specification words it: the context is not loading,
  \<open>allRepos\<close> is \<^verbatim>\<open>[A]\<close> and \<open>visibleRepos\<close> is undefined. The render raises instead of
  showing an empty state.
\<close>

theorem undefined_visibleRepos_raises:
  "LeftNavRepositorySection (example_context (Array [''A'']) False Undefined) = Inl TypeError"
  by (simp add: example_context_def LeftNavRepositorySection_def LoadedRepositorySection_def
      listContent_def)

text \<open>
  C8, as the code has it. For every context a render produces at most one of the four
  render states (loading placeholder, populated, empty-selection, empty-workspace). For
  every context whose \<open>allRepos\<close> and \<open>visibleRepos\<close> are arrays it produces exactly one:
  the placeholder when loading, else populated when \<open>visibleRepos\<close> is non-empty, else
  empty-selection when \<open>allRepos\<close> is non-empty, else empty-workspace.
\<close>

theorem exactly_one_render_state:
  fixes ctx :: "('r, 'a, 'e, 'z) WorkspaceContext_scheme"
  shows "(produces ctx s \<and> produces ctx t \<longrightarrow> s = t)
       \<and> (allRepos ctx = Array as \<and> visibleRepos ctx = Array vs
            \<longrightarrow> (\<exists>!s. produces ctx s)
              \<and> produces ctx
                  (if loading ctx then LoadingPlaceholder
                   else if vs \<noteq> [] then Populated
                   else if as \<noteq> [] then EmptySelection else EmptyWorkspace))"
proof (intro conjI impI)
  assume "produces ctx s \<and> produces ctx t"
  then show "s = t" using produces_at_most_one by blast
next
  assume a: "allRepos ctx = Array as \<and> visibleRepos ctx = Array vs"
  then show "\<exists>!s. produces ctx s"
    by (simp add: produces_iff [of ctx as vs])
next
  assume a: "allRepos ctx = Array as \<and> visibleRepos ctx = Array vs"
  then show "produces ctx
                  (if loading ctx then LoadingPlaceholder
                   else if vs \<noteq> [] then Populated
                   else if as \<noteq> [] then EmptySelection else EmptyWorkspace)"
    by (simp only: produces_iff [of ctx as vs])
qed

theorem exactly_one_render_state_witness:
  "allRepos (example_context (Array [''A'', ''B'']) False (Array [])) = Array [''A'', ''B'']
   \<and> visibleRepos (example_context (Array [''A'', ''B'']) False (Array [])) = Array []
   \<and> (\<exists>!s. produces (example_context (Array [''A'', ''B'']) False (Array [])) s)
   \<and> produces (example_context (Array [''A'', ''B'']) False (Array [])) EmptySelection"
proof -
  let ?c = "example_context (Array [''A'', ''B'']) False (Array [])"
  have h: "allRepos ?c = Array [''A'', ''B''] \<and> visibleRepos ?c = Array []"
    and l: "\<not> loading ?c"
    by (simp_all add: example_context_def)
  from exactly_one_render_state [of ?c EmptySelection EmptySelection "[''A'', ''B'']" "[]"] h
  have one: "\<exists>!s. produces ?c s"
    and which: "produces ?c
                  (if loading ?c then LoadingPlaceholder
                   else if ([] :: string list) \<noteq> [] then Populated
                   else if [''A'', ''B''] \<noteq> [] then EmptySelection else EmptyWorkspace)"
    and same: "produces ?c EmptySelection \<and> produces ?c EmptySelection
                 \<longrightarrow> EmptySelection = EmptySelection"
    by blast+
  from which l have "produces ?c EmptySelection" by simp
  with one h same show ?thesis by blast
qed

text \<open>
  The counterexample to C8 as the specification words it, for every context: the context
  is not loading, \<open>visibleRepos\<close> is empty and \<open>allRepos\<close> is undefined. The render raises,
  so none of the four render states is produced.
\<close>

theorem undefined_allRepos_produces_no_state:
  "\<not> produces (example_context Undefined False (Array [])) LoadingPlaceholder
   \<and> \<not> produces (example_context Undefined False (Array [])) Populated
   \<and> \<not> produces (example_context Undefined False (Array [])) EmptySelection
   \<and> \<not> produces (example_context Undefined False (Array [])) EmptyWorkspace"
  by (simp add: produces_def example_context_def LeftNavRepositorySection_def
      LoadedRepositorySection_def listContent_def)



end
